theory Spec2Isabelle
  imports Main "HOL-Library.Sublist" "HOL-Library.Multiset"
begin

section \<open>Filmovi API: the five CRUD routes of index.js\<close>

text \<open>
  The program is one Express application: five route handlers, each of which sends one or
  two SQL statements through \<^verbatim>\<open>pool.query(sql, values)\<close> and turns the result into an HTTP
  status and a JSON body. The handlers are embedded from index.js. The storage engine
  behind \<^verbatim>\<open>pool.query\<close> and the schema of the table are not part of the repository; they
  are modelled from the specification's description of the table, and every point the
  specification leaves to the storage engine is a parameter (record \<open>engine\<close>).
\<close>

subsection \<open>Values of the request\<close>

text \<open>
  A value parsed by \<^verbatim>\<open>express.json()\<close>. Numbers are modelled by their integer values
  (the only numeric field of a movie, \<^verbatim>\<open>godina\<close>, is an integer).
\<close>

datatype json =
    JNull
  | JBool bool
  | JNum int
  | JStr string
  | JArr "json list"
  | JObj "(string \<times> json) list"

text \<open>
  \<^verbatim>\<open>req.body\<close> as the handlers read it: a property read \<^verbatim>\<open>req.body.k\<close> that yields
  \<^verbatim>\<open>undefined\<close> is \<open>None\<close>. An element of the values array handed to \<^verbatim>\<open>pool.query\<close> is
  a \<open>json option\<close> for the same reason.
\<close>

type_synonym body = "string \<rightharpoonup> json"

type_synonym sql_values = "json option list"

subsection \<open>The table and the storage engine\<close>

text \<open>
  Modelled from the spec: the table \<^verbatim>\<open>filmovi(id PK autoincrement, naslov, godina, zanr,
  created_at)\<close> is created outside the repository. A row has an integer \<^verbatim>\<open>id\<close>, a string
  \<^verbatim>\<open>naslov\<close>, an optional integer \<^verbatim>\<open>godina\<close>, an optional string \<^verbatim>\<open>zanr\<close> and a timestamp
  \<^verbatim>\<open>created_at\<close>; \<open>None\<close> is SQL NULL. No length or range limit is documented for any
  column.
\<close>

record movie =
  id_pk :: int
  naslov :: "string option"
  godina :: "int option"
  zanr :: "string option"
  created_at :: "nat option"

text \<open>
  Modelled from the spec: the state of the storage engine is the rows of the table in the
  engine's own order, the counter from which the next \<^verbatim>\<open>id\<close> is generated, and the engine's
  clock, which stamps \<^verbatim>\<open>created_at\<close>.
\<close>

record database =
  filmovi :: "movie list"
  auto_increment :: int
  clock :: nat

text \<open>
  Modelled from the spec: what the specification delegates to the storage engine
  ("behavior depends entirely on storage's own type coercion/constraint enforcement").
  \<^item> \<open>id_of_text\<close>: the id that the filter \<^verbatim>\<open>WHERE id = ?\<close> selects when the bound value is a
    string (the path segment \<^verbatim>\<open>req.params.id\<close>); \<open>None\<close> when the string selects no row.
    The engine reads a string the same way in a SELECT, an UPDATE and a DELETE.
  \<^item> \<open>naslov_not_null\<close>: whether the column \<^verbatim>\<open>naslov\<close> rejects NULL.
  \<^item> \<open>text_of_json\<close>, \<open>int_of_json\<close>: how a non-null value of another type than the column's
    is coerced into a string or an integer column; \<open>None\<close> when the engine rejects it.
\<close>

record engine =
  id_of_text :: "string \<Rightarrow> int option"
  naslov_not_null :: bool
  text_of_json :: "json \<Rightarrow> string option"
  int_of_json :: "json \<Rightarrow> int option"

datatype storage_error = BadNull | BadValue | BadStatement

text \<open>
  What \<^verbatim>\<open>await pool.query(...)\<close> destructures as its first element: the array of rows of a
  SELECT, or the header of an INSERT, UPDATE or DELETE.
\<close>

datatype query_result =
    Rows "movie list"
  | ResultSetHeader int nat

text \<open>\<^verbatim>\<open>result.insertId\<close>, \<^verbatim>\<open>result.affectedRows\<close>: \<open>None\<close> is \<^verbatim>\<open>undefined\<close>.\<close>

fun insertId :: "query_result \<Rightarrow> int option" where
  "insertId (ResultSetHeader i n) = Some i"
| "insertId (Rows rs) = None"

fun affectedRows :: "query_result \<Rightarrow> nat option" where
  "affectedRows (ResultSetHeader i n) = Some n"
| "affectedRows (Rows rs) = None"

text \<open>\<^verbatim>\<open>!rows.length\<close>: true for an empty array, and for a value that has no length.\<close>

fun not_length :: "query_result \<Rightarrow> bool" where
  "not_length (Rows rs) = (rs = [])"
| "not_length (ResultSetHeader i n) = True"

text \<open>\<^verbatim>\<open>rows[0]\<close>: \<open>None\<close> is \<^verbatim>\<open>undefined\<close>.\<close>

fun first_row :: "query_result \<Rightarrow> movie option" where
  "first_row (Rows (r # rs)) = Some r"
| "first_row (Rows []) = None"
| "first_row (ResultSetHeader i n) = None"

text \<open>
  Modelled from the spec: binding a value to a column. \<^verbatim>\<open>undefined\<close> and \<^verbatim>\<open>null\<close> are
  NULL; a value of the column's type is stored as it is; any other value is the engine's
  coercion.
\<close>

fun bind_text :: "engine \<Rightarrow> json option \<Rightarrow> storage_error + string option" where
  "bind_text eng None = Inr None"
| "bind_text eng (Some JNull) = Inr None"
| "bind_text eng (Some (JStr s)) = Inr (Some s)"
| "bind_text eng (Some j) =
     (case text_of_json eng j of None \<Rightarrow> Inl BadValue | Some s \<Rightarrow> Inr (Some s))"

fun bind_int :: "engine \<Rightarrow> json option \<Rightarrow> storage_error + int option" where
  "bind_int eng None = Inr None"
| "bind_int eng (Some JNull) = Inr None"
| "bind_int eng (Some (JNum n)) = Inr (Some n)"
| "bind_int eng (Some j) =
     (case int_of_json eng j of None \<Rightarrow> Inl BadValue | Some n \<Rightarrow> Inr (Some n))"

definition bind_columns ::
  "engine \<Rightarrow> json option \<Rightarrow> json option \<Rightarrow> json option \<Rightarrow>
   storage_error + (string option \<times> int option \<times> string option)" where
  "bind_columns eng n g z =
     (case bind_text eng n of
        Inl e \<Rightarrow> Inl e
      | Inr n' \<Rightarrow>
          (case bind_int eng g of
             Inl e \<Rightarrow> Inl e
           | Inr g' \<Rightarrow>
               (case bind_text eng z of
                  Inl e \<Rightarrow> Inl e
                | Inr z' \<Rightarrow> Inr (n', g', z'))))"

text \<open>
  Modelled from the spec: the id selected by \<^verbatim>\<open>WHERE id = ?\<close>. A number selects itself
  (\<^verbatim>\<open>result.insertId\<close>), a string what the engine reads in it (\<^verbatim>\<open>req.params.id\<close>); NULL
  equals no id. The handlers bind no other kind of value to this placeholder.
\<close>

fun id_filter :: "engine \<Rightarrow> json option \<Rightarrow> int option" where
  "id_filter eng (Some (JNum n)) = Some n"
| "id_filter eng (Some (JStr s)) = id_of_text eng s"
| "id_filter eng v = None"

definition matches :: "engine \<Rightarrow> json option \<Rightarrow> movie \<Rightarrow> bool" where
  "matches eng v r = (id_filter eng v = Some (id_pk r))"

text \<open>SQL \<^verbatim>\<open>COALESCE(?, column)\<close>: the bound value unless it is NULL.\<close>

fun coalesce :: "'a option \<Rightarrow> 'a option \<Rightarrow> 'a option" where
  "coalesce (Some v) c = Some v"
| "coalesce None c = c"

text \<open>
  Modelled from the spec: the five statements, each on the state of the engine. The header
  of an INSERT carries the generated id; the affected rows of an UPDATE and of a DELETE are
  the rows that the filter matched ("not found if no row matched the id"), whether the
  UPDATE changed a value in them or not. An INSERT and an UPDATE bind their values before
  any row is looked at: a value that the engine rejects fails the statement whether a row
  matches or not. Failures of the connection are not modelled: a statement fails only when
  the engine rejects a value.
\<close>

definition select_all :: "database \<Rightarrow> (storage_error + query_result) \<times> database" where
  "select_all d = (Inr (Rows (filmovi d)), d)"

definition select_by_id ::
  "engine \<Rightarrow> json option \<Rightarrow> database \<Rightarrow> (storage_error + query_result) \<times> database" where
  "select_by_id eng v d = (Inr (Rows (filter (matches eng v) (filmovi d))), d)"

definition new_movie :: "database \<Rightarrow> string option \<Rightarrow> int option \<Rightarrow> string option \<Rightarrow> movie" where
  "new_movie d n g z =
     \<lparr>id_pk = auto_increment d, naslov = n, godina = g, zanr = z,
      created_at = Some (clock d)\<rparr>"

definition insert_row ::
  "engine \<Rightarrow> json option \<Rightarrow> json option \<Rightarrow> json option \<Rightarrow> database \<Rightarrow>
   (storage_error + query_result) \<times> database" where
  "insert_row eng n g z d =
     (case bind_columns eng n g z of
        Inl e \<Rightarrow> (Inl e, d)
      | Inr (n', g', z') \<Rightarrow>
          if naslov_not_null eng \<and> n' = None then (Inl BadNull, d)
          else (Inr (ResultSetHeader (auto_increment d) 1),
                d\<lparr>filmovi := filmovi d @ [new_movie d n' g' z'],
                  auto_increment := auto_increment d + 1\<rparr>))"

definition set_columns :: "string option \<Rightarrow> int option \<Rightarrow> string option \<Rightarrow> movie \<Rightarrow> movie" where
  "set_columns n g z r =
     r\<lparr>naslov := coalesce n (naslov r), godina := coalesce g (godina r),
       zanr := coalesce z (zanr r)\<rparr>"

definition update_rows ::
  "engine \<Rightarrow> json option \<Rightarrow> json option \<Rightarrow> json option \<Rightarrow> json option \<Rightarrow> database \<Rightarrow>
   (storage_error + query_result) \<times> database" where
  "update_rows eng n g z v d =
     (case bind_columns eng n g z of
        Inl e \<Rightarrow> (Inl e, d)
      | Inr (n', g', z') \<Rightarrow>
          (Inr (ResultSetHeader 0 (length (filter (matches eng v) (filmovi d)))),
           d\<lparr>filmovi :=
               map (\<lambda>r. if matches eng v r then set_columns n' g' z' r else r)
                 (filmovi d)\<rparr>))"

definition delete_rows ::
  "engine \<Rightarrow> json option \<Rightarrow> database \<Rightarrow> (storage_error + query_result) \<times> database" where
  "delete_rows eng v d =
     (Inr (ResultSetHeader 0 (length (filter (matches eng v) (filmovi d)))),
      d\<lparr>filmovi := filter (\<lambda>r. \<not> matches eng v r) (filmovi d)\<rparr>)"

subsection \<open>The SQL texts of index.js\<close>

definition sql_select_all :: string where
  "sql_select_all = ''SELECT * FROM filmovi''"

definition sql_select_by_id :: string where
  "sql_select_by_id = ''SELECT * FROM filmovi WHERE id = ?''"

definition sql_insert :: string where
  "sql_insert = ''INSERT INTO filmovi (naslov, godina, zanr) VALUES (?, ?, ?)''"

definition sql_update :: string where
  "sql_update =
     ''UPDATE filmovi SET naslov = COALESCE(?, naslov), godina = COALESCE(?, godina), zanr = COALESCE(?, zanr) WHERE id = ?''"

definition sql_delete :: string where
  "sql_delete = ''DELETE FROM filmovi WHERE id = ?''"

text \<open>
  Modelled from the spec: the engine runs the statement that the text denotes, the values
  replacing the placeholders from left to right. A text that is none of the five, or one
  with fewer values than placeholders, is refused.
\<close>

definition execute ::
  "engine \<Rightarrow> string \<Rightarrow> sql_values \<Rightarrow> database \<Rightarrow> (storage_error + query_result) \<times> database" where
  "execute eng sql vs d =
     (if sql = sql_select_all then select_all d
      else if sql = sql_select_by_id then
        (case vs of v # _ \<Rightarrow> select_by_id eng v d | _ \<Rightarrow> (Inl BadStatement, d))
      else if sql = sql_insert then
        (case vs of n # g # z # _ \<Rightarrow> insert_row eng n g z d | _ \<Rightarrow> (Inl BadStatement, d))
      else if sql = sql_update then
        (case vs of
           n # g # z # v # _ \<Rightarrow> update_rows eng n g z v d
         | _ \<Rightarrow> (Inl BadStatement, d))
      else if sql = sql_delete then
        (case vs of v # _ \<Rightarrow> delete_rows eng v d | _ \<Rightarrow> (Inl BadStatement, d))
      else (Inl BadStatement, d))"

subsection \<open>The connection pool\<close>

text \<open>
  The state that \<^verbatim>\<open>pool.query\<close> acts on: the storage engine's state, and the calls made so
  far, each with its SQL text and its values array.
\<close>

record pool =
  store :: database
  issued :: "(string \<times> sql_values) list"

definition pool_query ::
  "engine \<Rightarrow> string \<Rightarrow> sql_values \<Rightarrow> pool \<Rightarrow> (storage_error + query_result) \<times> pool" where
  "pool_query eng sql vs p =
     (case execute eng sql vs (store p) of
        (res, d) \<Rightarrow> (res, \<lparr>store = d, issued = issued p @ [(sql, vs)]\<rparr>))"

subsection \<open>The route handlers\<close>

text \<open>
  The body of a response: \<^verbatim>\<open>res.json(rows)\<close>, \<^verbatim>\<open>res.json(rows[0])\<close> (where \<open>None\<close> is
  \<^verbatim>\<open>undefined\<close>), \<^verbatim>\<open>res.json({ message })\<close> and \<^verbatim>\<open>res.send()\<close>.
\<close>

datatype payload =
    Json_result query_result
  | Json_row "movie option"
  | Json_message string
  | Empty

text \<open>
  What a handler leaves behind: a response with its status, or the rejection of the awaited
  query, which no handler catches.
\<close>

datatype response =
    Response nat payload
  | Rejected storage_error

text \<open>
  The message of the 404 responses, in UTF-8. In the handlers below, a call of
  \<^verbatim>\<open>pool.query\<close> without a values array passes the empty list, and a response whose status
  the handler does not set has status 200.
\<close>

definition not_found :: string where
  "not_found = ''Film nije prona'' @ [CHR 0xC4, CHR 0x91] @ ''en''"

definition get_filmovi :: "engine \<Rightarrow> pool \<Rightarrow> response \<times> pool" where
  "get_filmovi eng p =
     (case pool_query eng sql_select_all [] p of
        (Inl e, p') \<Rightarrow> (Rejected e, p')
      | (Inr rows, p') \<Rightarrow> (Response 200 (Json_result rows), p'))"

definition get_filmovi_id :: "engine \<Rightarrow> string \<Rightarrow> pool \<Rightarrow> response \<times> pool" where
  "get_filmovi_id eng ident p =
     (case pool_query eng sql_select_by_id [Some (JStr ident)] p of
        (Inl e, p') \<Rightarrow> (Rejected e, p')
      | (Inr rows, p') \<Rightarrow>
          if not_length rows then (Response 404 (Json_message not_found), p')
          else (Response 200 (Json_row (first_row rows)), p'))"

definition post_filmovi :: "engine \<Rightarrow> body \<Rightarrow> pool \<Rightarrow> response \<times> pool" where
  "post_filmovi eng b p =
     (case pool_query eng sql_insert [b ''naslov'', b ''godina'', b ''zanr''] p of
        (Inl e, p') \<Rightarrow> (Rejected e, p')
      | (Inr result, p') \<Rightarrow>
          (case pool_query eng sql_select_by_id [map_option JNum (insertId result)] p' of
             (Inl e, p'') \<Rightarrow> (Rejected e, p'')
           | (Inr rows, p'') \<Rightarrow> (Response 201 (Json_row (first_row rows)), p'')))"

definition put_filmovi_id :: "engine \<Rightarrow> string \<Rightarrow> body \<Rightarrow> pool \<Rightarrow> response \<times> pool" where
  "put_filmovi_id eng ident b p =
     (case pool_query eng sql_update
             [b ''naslov'', b ''godina'', b ''zanr'', Some (JStr ident)] p of
        (Inl e, p') \<Rightarrow> (Rejected e, p')
      | (Inr result, p') \<Rightarrow>
          if affectedRows result = Some 0 then (Response 404 (Json_message not_found), p')
          else
            (case pool_query eng sql_select_by_id [Some (JStr ident)] p' of
               (Inl e, p'') \<Rightarrow> (Rejected e, p'')
             | (Inr rows, p'') \<Rightarrow> (Response 200 (Json_row (first_row rows)), p'')))"

definition delete_filmovi_id :: "engine \<Rightarrow> string \<Rightarrow> pool \<Rightarrow> response \<times> pool" where
  "delete_filmovi_id eng ident p =
     (case pool_query eng sql_delete [Some (JStr ident)] p of
        (Inl e, p') \<Rightarrow> (Rejected e, p')
      | (Inr result, p') \<Rightarrow>
          if affectedRows result = Some 0 then (Response 404 (Json_message not_found), p')
          else (Response 204 Empty, p'))"

text \<open>The five routes, and the dispatch of a request to its handler.\<close>

datatype request =
    GET_filmovi
  | GET_filmovi_id string
  | POST_filmovi body
  | PUT_filmovi_id string body
  | DELETE_filmovi_id string

fun app :: "engine \<Rightarrow> request \<Rightarrow> pool \<Rightarrow> response \<times> pool" where
  "app eng GET_filmovi p = get_filmovi eng p"
| "app eng (GET_filmovi_id ident) p = get_filmovi_id eng ident p"
| "app eng (POST_filmovi b) p = post_filmovi eng b p"
| "app eng (PUT_filmovi_id ident b) p = put_filmovi_id eng ident b p"
| "app eng (DELETE_filmovi_id ident) p = delete_filmovi_id eng ident p"

subsection \<open>The statements a route sends\<close>

text \<open>The five operations, and the SQL texts that stand in the handler of each, in order.\<close>

datatype operation = List_all | Get_by_id | Create | Update | Delete

fun operation_of :: "request \<Rightarrow> operation" where
  "operation_of GET_filmovi = List_all"
| "operation_of (GET_filmovi_id ident) = Get_by_id"
| "operation_of (POST_filmovi b) = Create"
| "operation_of (PUT_filmovi_id ident b) = Update"
| "operation_of (DELETE_filmovi_id ident) = Delete"

fun statements :: "operation \<Rightarrow> string list" where
  "statements List_all = [sql_select_all]"
| "statements Get_by_id = [sql_select_by_id]"
| "statements Create = [sql_insert, sql_select_by_id]"
| "statements Update = [sql_update, sql_select_by_id]"
| "statements Delete = [sql_delete]"

subsection \<open>Well-formed tables and well-typed bodies\<close>

text \<open>
  The primary key: no two rows share an id, and every id was generated before the counter
  reached its present value.
\<close>

definition wf_database :: "database \<Rightarrow> bool" where
  "wf_database d =
     (distinct (map id_pk (filmovi d)) \<and>
      list_all (\<lambda>r. id_pk r < auto_increment d) (filmovi d))"

text \<open>
  A field of a movie as a request carries it: absent, \<^verbatim>\<open>null\<close>, or a value of the field's
  type; and the value it carries, if any.
\<close>

fun is_text :: "json option \<Rightarrow> bool" where
  "is_text None = True"
| "is_text (Some JNull) = True"
| "is_text (Some (JStr s)) = True"
| "is_text (Some j) = False"

fun is_int :: "json option \<Rightarrow> bool" where
  "is_int None = True"
| "is_int (Some JNull) = True"
| "is_int (Some (JNum n)) = True"
| "is_int (Some j) = False"

fun text_value :: "json option \<Rightarrow> string option" where
  "text_value (Some (JStr s)) = Some s"
| "text_value v = None"

fun int_value :: "json option \<Rightarrow> int option" where
  "int_value (Some (JNum n)) = Some n"
| "int_value v = None"

definition movie_fields :: "body \<Rightarrow> bool" where
  "movie_fields b = (is_text (b ''naslov'') \<and> is_int (b ''godina'') \<and> is_text (b ''zanr''))"

subsection \<open>A concrete engine and concrete requests\<close>

text \<open>
  An engine that reads an id written in decimal digits, requires \<^verbatim>\<open>naslov\<close>, and rejects
  every value of the wrong type. The concrete runs below use it.
\<close>

fun read_digits :: "nat \<Rightarrow> string \<Rightarrow> nat option" where
  "read_digits acc [] = Some acc"
| "read_digits acc (c # cs) =
     (if c \<in> set ''0123456789'' then read_digits (10 * acc + (of_char c - 48)) cs else None)"

definition decimal_id :: "string \<Rightarrow> int option" where
  "decimal_id s = (if s = [] then None else map_option int (read_digits 0 s))"

definition strict_engine :: engine where
  "strict_engine =
     \<lparr>id_of_text = decimal_id, naslov_not_null = True,
      text_of_json = (\<lambda>j. None), int_of_json = (\<lambda>j. None)\<rparr>"

definition empty_pool :: pool where
  "empty_pool = \<lparr>store = \<lparr>filmovi = [], auto_increment = 1, clock = 0\<rparr>, issued = []\<rparr>"

definition inception :: body where
  "inception =
     [''naslov'' \<mapsto> JStr ''Inception'', ''godina'' \<mapsto> JNum 2010, ''zanr'' \<mapsto> JStr ''Sci-Fi'']"

definition inception_row :: movie where
  "inception_row =
     \<lparr>id_pk = 1, naslov = Some ''Inception'', godina = Some 2010, zanr = Some ''Sci-Fi'',
      created_at = Some 0\<rparr>"

definition one_film :: pool where
  "one_film = \<lparr>store = \<lparr>filmovi = [inception_row], auto_increment = 2, clock = 5\<rparr>, issued = []\<rparr>"

definition tenet :: body where
  "tenet = [''naslov'' \<mapsto> JStr ''Tenet'', ''zanr'' \<mapsto> JStr ''Action'']"

definition tenet_row :: movie where
  "tenet_row =
     \<lparr>id_pk = 2, naslov = Some ''Tenet'', godina = None, zanr = Some ''Action'',
      created_at = Some 3\<rparr>"

definition two_films :: pool where
  "two_films =
     \<lparr>store = \<lparr>filmovi = [inception_row, tenet_row], auto_increment = 3, clock = 5\<rparr>,
      issued = []\<rparr>"

text \<open>The body of a client that tries to choose the id and the creation time.\<close>

definition inception_with_id :: body where
  "inception_with_id = inception(''id'' \<mapsto> JNum 99, ''created_at'' \<mapsto> JStr ''1999-01-01'')"

subsection \<open>Histories\<close>

text \<open>A sequence of requests, served one after the other.\<close>

fun run :: "engine \<Rightarrow> request list \<Rightarrow> pool \<Rightarrow> pool" where
  "run eng [] p = p"
| "run eng (req # reqs) p = run eng reqs (snd (app eng req p))"

text \<open>
  The ledger of a history, in the words of the specification ("the set of non-deleted
  created rows"): a create answered 201 enters the id of the row it returns, a delete
  answered 204 strikes the id that the engine reads in its path; nothing else changes it.
\<close>

fun ledger_step :: "engine \<Rightarrow> request \<Rightarrow> response \<Rightarrow> int list \<Rightarrow> int list" where
  "ledger_step eng (POST_filmovi b) resp ids =
     (case resp of
        Response s (Json_row (Some r)) \<Rightarrow> if s = 201 then ids @ [id_pk r] else ids
      | _ \<Rightarrow> ids)"
| "ledger_step eng (DELETE_filmovi_id ident) resp ids =
     (if resp = Response 204 Empty then filter (\<lambda>i. id_of_text eng ident \<noteq> Some i) ids
      else ids)"
| "ledger_step eng req resp ids = ids"

fun ledger :: "engine \<Rightarrow> request list \<Rightarrow> pool \<Rightarrow> int list \<Rightarrow> int list" where
  "ledger eng [] p ids = ids"
| "ledger eng (req # reqs) p ids =
     ledger eng reqs (snd (app eng req p)) (ledger_step eng req (fst (app eng req p)) ids)"

section \<open>Properties\<close>

subsection \<open>What each statement and each handler computes\<close>

lemma sql_texts_distinct:
  "sql_select_by_id \<noteq> sql_select_all"
  "sql_insert \<noteq> sql_select_all" "sql_insert \<noteq> sql_select_by_id"
  "sql_update \<noteq> sql_select_all" "sql_update \<noteq> sql_select_by_id" "sql_update \<noteq> sql_insert"
  "sql_delete \<noteq> sql_select_all" "sql_delete \<noteq> sql_select_by_id" "sql_delete \<noteq> sql_insert"
  "sql_delete \<noteq> sql_update"
  by (simp_all add: sql_select_all_def sql_select_by_id_def sql_insert_def sql_update_def
      sql_delete_def)

lemma execute_select_all: "execute eng sql_select_all vs d = select_all d"
  by (simp add: execute_def)

lemma execute_select_by_id: "execute eng sql_select_by_id (v # vs) d = select_by_id eng v d"
  by (simp add: execute_def sql_texts_distinct)

lemma execute_insert: "execute eng sql_insert (n # g # z # vs) d = insert_row eng n g z d"
  by (simp add: execute_def sql_texts_distinct)

lemma execute_update:
  "execute eng sql_update (n # g # z # v # vs) d = update_rows eng n g z v d"
  by (simp add: execute_def sql_texts_distinct)

lemma execute_delete: "execute eng sql_delete (v # vs) d = delete_rows eng v d"
  by (simp add: execute_def sql_texts_distinct)

lemmas execute_simps =
  execute_select_all execute_select_by_id execute_insert execute_update execute_delete

lemma get_filmovi_eq:
  "get_filmovi eng p =
     (Response 200 (Json_result (Rows (filmovi (store p)))),
      \<lparr>store = store p, issued = issued p @ [(sql_select_all, [])]\<rparr>)"
  by (simp add: get_filmovi_def pool_query_def execute_simps select_all_def)

lemma get_filmovi_id_eq:
  "get_filmovi_id eng ident p =
     (if filter (matches eng (Some (JStr ident))) (filmovi (store p)) = []
      then Response 404 (Json_message not_found)
      else Response 200
        (Json_row (first_row (Rows (filter (matches eng (Some (JStr ident))) (filmovi (store p)))))),
      \<lparr>store = store p, issued = issued p @ [(sql_select_by_id, [Some (JStr ident)])]\<rparr>)"
  by (simp add: get_filmovi_id_def pool_query_def execute_simps select_by_id_def)

lemma delete_filmovi_id_eq:
  "delete_filmovi_id eng ident p =
     (if filter (matches eng (Some (JStr ident))) (filmovi (store p)) = []
      then Response 404 (Json_message not_found)
      else Response 204 Empty,
      \<lparr>store = (store p)\<lparr>filmovi :=
          filter (\<lambda>r. \<not> matches eng (Some (JStr ident)) r) (filmovi (store p))\<rparr>,
       issued = issued p @ [(sql_delete, [Some (JStr ident)])]\<rparr>)"
  by (simp add: delete_filmovi_id_def pool_query_def execute_simps delete_rows_def)

lemma filter_matches_after_delete:
  "filter P (filter (\<lambda>r. \<not> P r) xs) = []"
  by (induction xs) auto

lemma bind_text_typed: "is_text v \<Longrightarrow> bind_text eng v = Inr (text_value v)"
  by (induction eng v rule: bind_text.induct) simp_all

lemma bind_int_typed: "is_int v \<Longrightarrow> bind_int eng v = Inr (int_value v)"
  by (induction eng v rule: bind_int.induct) simp_all

lemma bind_columns_typed:
  "is_text n \<Longrightarrow> is_int g \<Longrightarrow> is_text z \<Longrightarrow>
   bind_columns eng n g z = Inr (text_value n, int_value g, text_value z)"
  by (simp add: bind_columns_def bind_text_typed bind_int_typed)

lemma matches_set_columns [simp]: "matches eng v (set_columns n g z r) = matches eng v r"
  by (simp add: matches_def set_columns_def)

lemma filter_map_if:
  "(\<And>x. P (f x) = P x) \<Longrightarrow>
   filter P (map (\<lambda>x. if P x then f x else x) xs) = map f (filter P xs)"
  by (induction xs) auto

lemma map_if_none:
  "filter P xs = [] \<Longrightarrow> map (\<lambda>x. if P x then f x else x) xs = xs"
  by (induction xs) (auto split: if_splits)

lemma put_rejected:
  "bind_columns eng (b ''naslov'') (b ''godina'') (b ''zanr'') = Inl e \<Longrightarrow>
   put_filmovi_id eng ident b p =
     (Rejected e,
      \<lparr>store = store p,
       issued = issued p @
         [(sql_update, [b ''naslov'', b ''godina'', b ''zanr'', Some (JStr ident)])]\<rparr>)"
  by (simp add: put_filmovi_id_def pool_query_def execute_simps update_rows_def)

lemma put_no_match:
  "bind_columns eng (b ''naslov'') (b ''godina'') (b ''zanr'') = Inr c \<Longrightarrow>
   filter (matches eng (Some (JStr ident))) (filmovi (store p)) = [] \<Longrightarrow>
   put_filmovi_id eng ident b p =
     (Response 404 (Json_message not_found),
      \<lparr>store = store p,
       issued = issued p @
         [(sql_update, [b ''naslov'', b ''godina'', b ''zanr'', Some (JStr ident)])]\<rparr>)"
  by (cases c)
    (simp add: put_filmovi_id_def pool_query_def execute_simps update_rows_def map_if_none)

lemma put_match:
  "filter (matches eng (Some (JStr ident))) (filmovi (store p)) \<noteq> [] \<Longrightarrow>
   bind_columns eng (b ''naslov'') (b ''godina'') (b ''zanr'') = Inr (n, g, z) \<Longrightarrow>
   put_filmovi_id eng ident b p =
     (Response 200
        (Json_row (first_row (Rows
           (map (set_columns n g z)
              (filter (matches eng (Some (JStr ident))) (filmovi (store p))))))),
      \<lparr>store = (store p)\<lparr>filmovi :=
          map (\<lambda>r. if matches eng (Some (JStr ident)) r then set_columns n g z r else r)
            (filmovi (store p))\<rparr>,
       issued = issued p @
         [(sql_update, [b ''naslov'', b ''godina'', b ''zanr'', Some (JStr ident)]),
          (sql_select_by_id, [Some (JStr ident)])]\<rparr>)"
  by (simp add: put_filmovi_id_def pool_query_def execute_simps update_rows_def
      select_by_id_def filter_map_if)

lemma post_rejected:
  "bind_columns eng (b ''naslov'') (b ''godina'') (b ''zanr'') = Inl e \<Longrightarrow>
   post_filmovi eng b p =
     (Rejected e,
      \<lparr>store = store p,
       issued = issued p @ [(sql_insert, [b ''naslov'', b ''godina'', b ''zanr''])]\<rparr>)"
  by (simp add: post_filmovi_def pool_query_def execute_simps insert_row_def)

lemma post_bad_null:
  "bind_columns eng (b ''naslov'') (b ''godina'') (b ''zanr'') = Inr (None, g, z) \<Longrightarrow>
   naslov_not_null eng \<Longrightarrow>
   post_filmovi eng b p =
     (Rejected BadNull,
      \<lparr>store = store p,
       issued = issued p @ [(sql_insert, [b ''naslov'', b ''godina'', b ''zanr''])]\<rparr>)"
  by (simp add: post_filmovi_def pool_query_def execute_simps insert_row_def)

lemma post_inserted:
  "bind_columns eng (b ''naslov'') (b ''godina'') (b ''zanr'') = Inr (n, g, z) \<Longrightarrow>
   \<not> (naslov_not_null eng \<and> n = None) \<Longrightarrow>
   post_filmovi eng b p =
     (Response 201
        (Json_row (first_row (Rows
           (filter (matches eng (Some (JNum (auto_increment (store p)))))
              (filmovi (store p) @ [new_movie (store p) n g z]))))),
      \<lparr>store = (store p)\<lparr>filmovi := filmovi (store p) @ [new_movie (store p) n g z],
          auto_increment := auto_increment (store p) + 1\<rparr>,
       issued = issued p @
         [(sql_insert, [b ''naslov'', b ''godina'', b ''zanr'']),
          (sql_select_by_id, [Some (JNum (auto_increment (store p)))])]\<rparr>)"
  by (simp add: post_filmovi_def pool_query_def execute_simps insert_row_def
      select_by_id_def)

lemma fresh_no_match:
  "wf_database d \<Longrightarrow> filter (matches eng (Some (JNum (auto_increment d)))) (filmovi d) = []"
  by (auto simp: wf_database_def matches_def filter_empty_conv list_all_iff)

lemma new_movie_matches [simp]:
  "matches eng (Some (JNum (auto_increment d))) (new_movie d n g z)"
  by (simp add: matches_def new_movie_def)

lemma post_inserted_wf:
  "wf_database (store p) \<Longrightarrow>
   bind_columns eng (b ''naslov'') (b ''godina'') (b ''zanr'') = Inr (n, g, z) \<Longrightarrow>
   \<not> (naslov_not_null eng \<and> n = None) \<Longrightarrow>
   post_filmovi eng b p =
     (Response 201 (Json_row (Some (new_movie (store p) n g z))),
      \<lparr>store = (store p)\<lparr>filmovi := filmovi (store p) @ [new_movie (store p) n g z],
          auto_increment := auto_increment (store p) + 1\<rparr>,
       issued = issued p @
         [(sql_insert, [b ''naslov'', b ''godina'', b ''zanr'']),
          (sql_select_by_id, [Some (JNum (auto_increment (store p)))])]\<rparr>)"
  by (simp add: post_inserted fresh_no_match)

lemma filter_none_compl: "filter P xs = [] \<Longrightarrow> filter (\<lambda>x. \<not> P x) xs = xs"
  by (induction xs) (auto split: if_splits)

lemma bind_columns_cases:
  obtains e where "bind_columns eng n g z = Inl e"
  | n' g' z' where "bind_columns eng n g z = Inr (n', g', z')"
  by (cases "bind_columns eng n g z") auto

lemma put_typed_match:
  assumes "movie_fields b"
    and "filter (matches eng (Some (JStr ident))) (filmovi (store p)) \<noteq> []"
  shows "put_filmovi_id eng ident b p =
     (Response 200
        (Json_row (first_row (Rows
           (map (set_columns (text_value (b ''naslov'')) (int_value (b ''godina''))
                   (text_value (b ''zanr'')))
              (filter (matches eng (Some (JStr ident))) (filmovi (store p))))))),
      \<lparr>store = (store p)\<lparr>filmovi :=
          map (\<lambda>r. if matches eng (Some (JStr ident)) r
                    then set_columns (text_value (b ''naslov'')) (int_value (b ''godina''))
                           (text_value (b ''zanr'')) r
                    else r)
            (filmovi (store p))\<rparr>,
       issued = issued p @
         [(sql_update, [b ''naslov'', b ''godina'', b ''zanr'', Some (JStr ident)]),
          (sql_select_by_id, [Some (JStr ident)])]\<rparr>)"
  using assms by (simp add: put_match bind_columns_typed movie_fields_def)

lemma put_not_found_only_if:
  assumes "fst (put_filmovi_id eng ident b p) = Response 404 (Json_message not_found)"
  shows "filter (matches eng (Some (JStr ident))) (filmovi (store p)) = [] \<and>
         store (snd (put_filmovi_id eng ident b p)) = store p"
proof (cases rule: bind_columns_cases [of eng "b ''naslov''" "b ''godina''" "b ''zanr''"])
  case (1 e)
  with assms show ?thesis by (simp add: put_rejected)
next
  case (2 n g z)
  show ?thesis
  proof (cases "filter (matches eng (Some (JStr ident))) (filmovi (store p)) = []")
    case True
    with 2 show ?thesis by (simp add: put_no_match)
  next
    case False
    with 2 assms show ?thesis by (simp add: put_match)
  qed
qed

lemma put_typed_no_match:
  assumes "movie_fields b"
    and "filter (matches eng (Some (JStr ident))) (filmovi (store p)) = []"
  shows "put_filmovi_id eng ident b p =
     (Response 404 (Json_message not_found),
      \<lparr>store = store p,
       issued = issued p @
         [(sql_update, [b ''naslov'', b ''godina'', b ''zanr'', Some (JStr ident)])]\<rparr>)"
proof -
  from assms(1) have
    "bind_columns eng (b ''naslov'') (b ''godina'') (b ''zanr'') =
       Inr (text_value (b ''naslov''), int_value (b ''godina''), text_value (b ''zanr''))"
    by (simp add: bind_columns_typed movie_fields_def)
  from put_no_match [OF this assms(2)] show ?thesis .
qed

lemma put_typed_not_found_iff:
  assumes "movie_fields b"
  shows "(fst (put_filmovi_id eng ident b p) = Response 404 (Json_message not_found)) =
         (filter (matches eng (Some (JStr ident))) (filmovi (store p)) = [])"
proof
  assume "fst (put_filmovi_id eng ident b p) = Response 404 (Json_message not_found)"
  then show "filter (matches eng (Some (JStr ident))) (filmovi (store p)) = []"
    by (simp add: put_not_found_only_if)
next
  assume "filter (matches eng (Some (JStr ident))) (filmovi (store p)) = []"
  with assms show "fst (put_filmovi_id eng ident b p) = Response 404 (Json_message not_found)"
    by (simp add: put_typed_no_match)
qed

lemma put_typed_table:
  assumes "movie_fields b"
  shows "filmovi (store (snd (put_filmovi_id eng ident b p))) =
     map (\<lambda>r. if matches eng (Some (JStr ident)) r
               then set_columns (text_value (b ''naslov'')) (int_value (b ''godina''))
                      (text_value (b ''zanr'')) r
               else r)
       (filmovi (store p))"
proof (cases "filter (matches eng (Some (JStr ident))) (filmovi (store p)) = []")
  case True
  then have "\<forall>r \<in> set (filmovi (store p)). \<not> matches eng (Some (JStr ident)) r"
    by (simp add: filter_empty_conv)
  then have "map (\<lambda>r. if matches eng (Some (JStr ident)) r
               then set_columns (text_value (b ''naslov'')) (int_value (b ''godina''))
                      (text_value (b ''zanr'')) r
               else r) (filmovi (store p)) = filmovi (store p)"
    by (simp add: map_idI)
  with True assms show ?thesis by (simp add: put_typed_no_match)
next
  case False
  with assms show ?thesis by (simp add: put_typed_match)
qed

lemma coalesce_case: "coalesce v c = (case v of Some x \<Rightarrow> Some x | None \<Rightarrow> c)"
  by (cases v) simp_all

lemma post_typed:
  assumes "wf_database (store p)" and "movie_fields b" and "b ''naslov'' = Some (JStr n)"
  shows "post_filmovi eng b p =
     (Response 201
        (Json_row (Some (new_movie (store p) (Some n) (int_value (b ''godina''))
           (text_value (b ''zanr''))))),
      \<lparr>store = (store p)\<lparr>filmovi := filmovi (store p) @
            [new_movie (store p) (Some n) (int_value (b ''godina'')) (text_value (b ''zanr''))],
          auto_increment := auto_increment (store p) + 1\<rparr>,
       issued = issued p @
         [(sql_insert, [b ''naslov'', b ''godina'', b ''zanr'']),
          (sql_select_by_id, [Some (JNum (auto_increment (store p)))])]\<rparr>)"
proof -
  from assms(2,3) have
    "bind_columns eng (b ''naslov'') (b ''godina'') (b ''zanr'') =
       Inr (Some n, int_value (b ''godina''), text_value (b ''zanr''))"
    using bind_columns_typed [of "b ''naslov''" "b ''godina''" "b ''zanr''" eng]
    by (simp add: movie_fields_def)
  with assms(1) show ?thesis by (simp add: post_inserted_wf)
qed

lemma post_cases:
  assumes "wf_database (store p)"
  obtains (rejected) e where
      "post_filmovi eng b p =
         (Rejected e,
          \<lparr>store = store p,
           issued = issued p @ [(sql_insert, [b ''naslov'', b ''godina'', b ''zanr''])]\<rparr>)"
  | (inserted) n g z where
      "bind_columns eng (b ''naslov'') (b ''godina'') (b ''zanr'') = Inr (n, g, z)"
      "post_filmovi eng b p =
         (Response 201 (Json_row (Some (new_movie (store p) n g z))),
          \<lparr>store = (store p)\<lparr>filmovi := filmovi (store p) @ [new_movie (store p) n g z],
              auto_increment := auto_increment (store p) + 1\<rparr>,
           issued = issued p @
             [(sql_insert, [b ''naslov'', b ''godina'', b ''zanr'']),
              (sql_select_by_id, [Some (JNum (auto_increment (store p)))])]\<rparr>)"
proof (cases rule: bind_columns_cases [of eng "b ''naslov''" "b ''godina''" "b ''zanr''"])
  case (1 e)
  then show ?thesis using rejected by (simp add: post_rejected)
next
  case (2 n g z)
  show ?thesis
  proof (cases "naslov_not_null eng \<and> n = None")
    case True
    with 2 show ?thesis using rejected by (simp add: post_bad_null)
  next
    case False
    with 2 assms show ?thesis using inserted by (simp add: post_inserted_wf)
  qed
qed

lemma fresh_not_member:
  "wf_database d \<Longrightarrow> auto_increment d \<notin> id_pk ` set (filmovi d)"
  by (auto simp: wf_database_def list_all_iff)

lemma ids_after_delete:
  "map id_pk (filter (\<lambda>r. \<not> matches eng (Some (JStr ident)) r) rs) =
   filter (\<lambda>i. id_of_text eng ident \<noteq> Some i) (map id_pk rs)"
  by (simp add: filter_map comp_def matches_def)

lemma ids_after_put:
  "map id_pk (map (\<lambda>r. if matches eng v r then set_columns n g z r else r) rs) = map id_pk rs"
  by (induction rs) (simp_all add: set_columns_def)

subsection \<open>The primary key is an invariant\<close>

text \<open>
  The empty table is well formed, and every route keeps a well-formed table well formed:
  the hypothesis \<open>wf_database\<close> below holds in every state the program reaches.
\<close>

lemma wf_empty_pool: "wf_database (store empty_pool)"
  by (simp add: wf_database_def empty_pool_def)

lemma wf_app:
  assumes "wf_database (store p)"
  shows "wf_database (store (snd (app eng req p)))"
proof (cases req)
  case GET_filmovi
  with assms show ?thesis by (simp add: get_filmovi_eq)
next
  case (GET_filmovi_id ident)
  with assms show ?thesis by (simp add: get_filmovi_id_eq)
next
  case (POST_filmovi b)
  from assms show ?thesis
  proof (cases rule: post_cases [of p eng b])
    case (rejected e)
    with assms POST_filmovi show ?thesis by simp
  next
    case (inserted n g z)
    with assms POST_filmovi fresh_not_member [OF assms] show ?thesis
      by (auto simp: wf_database_def new_movie_def list_all_iff)
  qed
next
  case (PUT_filmovi_id ident b)
  show ?thesis
  proof (cases rule: bind_columns_cases [of eng "b ''naslov''" "b ''godina''" "b ''zanr''"])
    case (1 e)
    with assms PUT_filmovi_id show ?thesis by (simp add: put_rejected)
  next
    case (2 n g z)
    show ?thesis
    proof (cases "filter (matches eng (Some (JStr ident))) (filmovi (store p)) = []")
      case True
      with assms 2 PUT_filmovi_id show ?thesis by (simp add: put_no_match)
    next
      case False
      have "map id_pk (map (\<lambda>r. if matches eng (Some (JStr ident)) r
                then set_columns n g z r else r) (filmovi (store p))) =
            map id_pk (filmovi (store p))"
        by (simp add: set_columns_def comp_def if_distrib cong: if_cong)
      with assms False 2 PUT_filmovi_id show ?thesis
        by (auto simp: put_match wf_database_def list_all_iff set_columns_def
            simp del: map_map)
    qed
  qed
next
  case (DELETE_filmovi_id ident)
  with assms show ?thesis
    by (auto simp: delete_filmovi_id_eq wf_database_def list_all_iff distinct_map_filter)
qed

lemma wf_run: "wf_database (store p) \<Longrightarrow> wf_database (store (run eng reqs p))"
  by (induction reqs arbitrary: p) (simp_all add: wf_app)

lemma ledger_step_app:
  assumes "wf_database (store p)"
  shows "map id_pk (filmovi (store (snd (app eng req p)))) =
         ledger_step eng req (fst (app eng req p)) (map id_pk (filmovi (store p)))"
proof (cases req)
  case GET_filmovi
  then show ?thesis by (simp add: get_filmovi_eq)
next
  case (GET_filmovi_id ident)
  then show ?thesis by (simp add: get_filmovi_id_eq)
next
  case (POST_filmovi b)
  from assms show ?thesis
  proof (cases rule: post_cases [of p eng b])
    case (rejected e)
    with POST_filmovi show ?thesis by simp
  next
    case (inserted n g z)
    with POST_filmovi show ?thesis by simp
  qed
next
  case (PUT_filmovi_id ident b)
  show ?thesis
  proof (cases rule: bind_columns_cases [of eng "b ''naslov''" "b ''godina''" "b ''zanr''"])
    case (1 e)
    with PUT_filmovi_id show ?thesis by (simp add: put_rejected)
  next
    case (2 n g z)
    show ?thesis
    proof (cases "filter (matches eng (Some (JStr ident))) (filmovi (store p)) = []")
      case True
      with 2 PUT_filmovi_id show ?thesis by (simp add: put_no_match)
    next
      case False
      with 2 PUT_filmovi_id show ?thesis
        by (simp add: put_match ids_after_put del: map_map)
    qed
  qed
next
  case (DELETE_filmovi_id ident)
  show ?thesis
  proof (cases "filter (matches eng (Some (JStr ident))) (filmovi (store p)) = []")
    case True
    with DELETE_filmovi_id show ?thesis
      by (simp add: delete_filmovi_id_eq filter_none_compl)
  next
    case False
    with DELETE_filmovi_id show ?thesis
      by (simp add: delete_filmovi_id_eq ids_after_delete)
  qed
qed

lemma ledger_run:
  "wf_database (store p) \<Longrightarrow>
   map id_pk (filmovi (store (run eng reqs p))) =
     ledger eng reqs p (map id_pk (filmovi (store p)))"
proof (induction reqs arbitrary: p)
  case Nil
  then show ?case by simp
next
  case (Cons req reqs)
  from Cons.prems have "wf_database (store (snd (app eng req p)))"
    by (rule wf_app)
  from Cons.IH [OF this] Cons.prems show ?case
    by (simp add: ledger_step_app)
qed

subsection \<open>Concrete values\<close>

lemma all_less_two: "(\<forall>k < (2::nat). P k) = (P 0 \<and> P 1)"
  by (auto simp: less_2_cases_iff)

lemma strict_matches:
  "matches strict_engine (Some (JStr ''1'')) r = (id_pk r = 1)"
  "matches strict_engine (Some (JStr ''7'')) r = (id_pk r = 7)"
  by (auto simp: matches_def strict_engine_def decimal_id_def)

lemma inception_fields:
  "inception ''naslov'' = Some (JStr ''Inception'')"
  "inception ''godina'' = Some (JNum 2010)"
  "inception ''zanr'' = Some (JStr ''Sci-Fi'')"
  by (simp_all add: inception_def)

subsection \<open>Parameter binding\<close>

text \<open>
  Claim C1. For each of the five operations, the SQL text handed to \<^verbatim>\<open>pool.query\<close> is a
  constant of the program: whatever the path, the body, the engine and the state of the
  pool, the calls that a request adds are at least one, and their texts are, in order, the
  first texts of the fixed list \<open>statements\<close> of the operation (the second text of create is
  missing when the insert is rejected, the second of update when no row matched or the
  update is rejected). The values of the request stand only in the values array. Hence the
  k-th call of two runs of one operation carries the same text.
\<close>

theorem sql_text_fixed:
  "\<exists>qs. issued (snd (app eng req p)) = issued p @ qs \<and> qs \<noteq> [] \<and>
        prefix (map fst qs) (statements (operation_of req))"
proof (cases req)
  case GET_filmovi
  then show ?thesis by (simp add: get_filmovi_eq)
next
  case (GET_filmovi_id ident)
  then show ?thesis by (simp add: get_filmovi_id_eq)
next
  case (POST_filmovi b)
  show ?thesis
  proof (cases rule: bind_columns_cases [of eng "b ''naslov''" "b ''godina''" "b ''zanr''"])
    case (1 e)
    with POST_filmovi show ?thesis by (simp add: post_rejected)
  next
    case (2 n g z)
    show ?thesis
    proof (cases "naslov_not_null eng \<and> n = None")
      case True
      with 2 POST_filmovi show ?thesis by (simp add: post_bad_null)
    next
      case False
      with 2 POST_filmovi show ?thesis by (simp add: post_inserted)
    qed
  qed
next
  case (PUT_filmovi_id ident b)
  show ?thesis
  proof (cases rule: bind_columns_cases [of eng "b ''naslov''" "b ''godina''" "b ''zanr''"])
    case (1 e)
    with PUT_filmovi_id show ?thesis by (simp add: put_rejected)
  next
    case (2 n g z)
    show ?thesis
    proof (cases "filter (matches eng (Some (JStr ident))) (filmovi (store p)) = []")
      case True
      with 2 PUT_filmovi_id show ?thesis by (simp add: put_no_match)
    next
      case False
      with 2 PUT_filmovi_id show ?thesis by (simp add: put_match)
    qed
  qed
next
  case (DELETE_filmovi_id ident)
  then show ?thesis by (simp add: delete_filmovi_id_eq)
qed

subsection \<open>Reading\<close>

text \<open>
  Claim C10. The two read operations never modify the table: for every engine, every state
  of the pool and every id, the state of the storage engine after \<^verbatim>\<open>GET /filmovi\<close> and
  after \<^verbatim>\<open>GET /filmovi/:id\<close> is the state before.
\<close>

theorem reads_keep_table:
  "store (snd (get_filmovi eng p)) = store p \<and>
   store (snd (get_filmovi_id eng ident p)) = store p"
  by (simp add: get_filmovi_eq get_filmovi_id_eq)

text \<open>
  Claim C8. \<^verbatim>\<open>GET /filmovi\<close> responds with status 200 and an array that holds exactly the
  rows of the table at that moment, each as often as the table holds it (equal as
  multisets, so the same set and the same number of rows), whatever the order. After any
  history of requests on a well-formed table, the rows listed are pairwise distinct in
  their ids, and their ids are exactly the ledger of the history: the rows there at the
  start and those created since, without those deleted since.
\<close>

theorem list_is_table:
  "(\<exists>rs. fst (get_filmovi eng p) = Response 200 (Json_result (Rows rs)) \<and>
         mset rs = mset (filmovi (store p))) \<and>
   (wf_database (store p) \<longrightarrow>
      (\<exists>rs. fst (get_filmovi eng (run eng reqs p)) = Response 200 (Json_result (Rows rs)) \<and>
            distinct (map id_pk rs) \<and>
            map id_pk rs = ledger eng reqs p (map id_pk (filmovi (store p)))))"
proof (intro conjI impI)
  show "\<exists>rs. fst (get_filmovi eng p) = Response 200 (Json_result (Rows rs)) \<and>
         mset rs = mset (filmovi (store p))"
    by (simp add: get_filmovi_eq)
next
  assume wf: "wf_database (store p)"
  then have "distinct (map id_pk (filmovi (store (run eng reqs p))))"
    using wf_run [of p eng reqs] by (simp add: wf_database_def)
  with wf show "\<exists>rs. fst (get_filmovi eng (run eng reqs p)) = Response 200 (Json_result (Rows rs)) \<and>
            distinct (map id_pk rs) \<and>
            map id_pk rs = ledger eng reqs p (map id_pk (filmovi (store p)))"
    by (simp add: get_filmovi_eq ledger_run)
qed

theorem list_is_table_witness:
  "\<exists>rs. fst (get_filmovi strict_engine
            (run strict_engine
               [POST_filmovi inception, POST_filmovi tenet, DELETE_filmovi_id ''1'']
               empty_pool)) = Response 200 (Json_result (Rows rs)) \<and>
        distinct (map id_pk rs) \<and> map id_pk rs = [2]"
proof -
  have led: "ledger strict_engine
      [POST_filmovi inception, POST_filmovi tenet, DELETE_filmovi_id ''1''] empty_pool
      (map id_pk (filmovi (store empty_pool))) = [2]"
    by code_simp
  note listed = list_is_table [of strict_engine empty_pool
      "[POST_filmovi inception, POST_filmovi tenet, DELETE_filmovi_id ''1'']"]
  show ?thesis
    using listed [THEN conjunct2, THEN mp, OF wf_empty_pool] unfolding led .
qed

subsection \<open>Creating\<close>

text \<open>
  Claim C7. On a well-formed table, \<^verbatim>\<open>POST /filmovi\<close> with well-typed fields and a
  \<^verbatim>\<open>naslov\<close> responds 201; and whenever it responds 201, the body is a row r, the table
  is the old table with the one row r added, the id of r is the engine's counter (an id no
  old row has) and its \<^verbatim>\<open>created_at\<close> the engine's clock, and r is what the SELECT by the
  generated id returns from the new table.
\<close>

theorem create_outcome:
  assumes "wf_database (store p)"
  shows "(movie_fields b \<and> (\<exists>n. b ''naslov'' = Some (JStr n)) \<longrightarrow>
            (\<exists>y. fst (post_filmovi eng b p) = Response 201 y)) \<and>
         (\<forall>y. fst (post_filmovi eng b p) = Response 201 y \<longrightarrow>
            (\<exists>r. y = Json_row (Some r) \<and>
                 filmovi (store (snd (post_filmovi eng b p))) = filmovi (store p) @ [r] \<and>
                 id_pk r = auto_increment (store p) \<and>
                 id_pk r \<notin> id_pk ` set (filmovi (store p)) \<and>
                 created_at r = Some (clock (store p)) \<and>
                 fst (select_by_id eng (Some (JNum (id_pk r)))
                        (store (snd (post_filmovi eng b p)))) = Inr (Rows [r])))"
proof (intro conjI impI allI)
  assume "movie_fields b \<and> (\<exists>n. b ''naslov'' = Some (JStr n))"
  with assms show "\<exists>y. fst (post_filmovi eng b p) = Response 201 y"
    by (auto simp: post_typed)
next
  fix y
  assume ok: "fst (post_filmovi eng b p) = Response 201 y"
  from assms show "\<exists>r. y = Json_row (Some r) \<and>
                 filmovi (store (snd (post_filmovi eng b p))) = filmovi (store p) @ [r] \<and>
                 id_pk r = auto_increment (store p) \<and>
                 id_pk r \<notin> id_pk ` set (filmovi (store p)) \<and>
                 created_at r = Some (clock (store p)) \<and>
                 fst (select_by_id eng (Some (JNum (id_pk r)))
                        (store (snd (post_filmovi eng b p)))) = Inr (Rows [r])"
  proof (cases rule: post_cases [of p eng b])
    case (rejected e)
    with ok show ?thesis by simp
  next
    case (inserted n g z)
    have "id_pk (new_movie (store p) n g z) = auto_increment (store p)"
      "created_at (new_movie (store p) n g z) = Some (clock (store p))"
      by (simp_all add: new_movie_def)
    with ok inserted assms show ?thesis
      by (simp add: select_by_id_def fresh_no_match fresh_not_member)
  qed
qed

theorem create_outcome_witness:
  "fst (post_filmovi strict_engine inception empty_pool) =
     Response 201 (Json_row (Some inception_row)) \<and>
   filmovi (store (snd (post_filmovi strict_engine inception empty_pool))) = [inception_row]"
proof -
  have typed: "movie_fields inception \<and> (\<exists>n. inception ''naslov'' = Some (JStr n))"
    by (simp add: movie_fields_def inception_fields)
  have run: "post_filmovi strict_engine inception empty_pool =
     (Response 201 (Json_row (Some inception_row)),
      \<lparr>store = \<lparr>filmovi = [inception_row], auto_increment = 2, clock = 0\<rparr>,
       issued = [(sql_insert, [Some (JStr ''Inception''), Some (JNum 2010), Some (JStr ''Sci-Fi'')]),
                 (sql_select_by_id, [Some (JNum 1)])]\<rparr>)"
    using post_typed [of empty_pool inception "''Inception''" strict_engine] wf_empty_pool
    by (simp add: movie_fields_def inception_fields new_movie_def empty_pool_def
        inception_row_def)
  from create_outcome [OF wf_empty_pool, of inception strict_engine] typed run
  show ?thesis by (simp add: empty_pool_def)
qed

text \<open>
  Claim C9. The create handler reads the fields \<^verbatim>\<open>naslov\<close>, \<^verbatim>\<open>godina\<close> and \<^verbatim>\<open>zanr\<close> of the
  body and nothing else: two bodies that agree on the three fields give the same response,
  the same calls to \<^verbatim>\<open>pool.query\<close> and the same state, whatever else they hold. The row
  that a create adds, if it adds one, has the engine's counter as its id and the engine's
  clock as its \<^verbatim>\<open>created_at\<close>: the body chooses neither.
\<close>

theorem create_reads_three_fields:
  assumes "b1 ''naslov'' = b2 ''naslov''" and "b1 ''godina'' = b2 ''godina''"
    and "b1 ''zanr'' = b2 ''zanr''"
  shows "post_filmovi eng b1 p = post_filmovi eng b2 p \<and>
         (store (snd (post_filmovi eng b1 p)) = store p \<or>
          (\<exists>n g z. filmovi (store (snd (post_filmovi eng b1 p))) =
             filmovi (store p) @
               [\<lparr>id_pk = auto_increment (store p), naslov = n, godina = g, zanr = z,
                 created_at = Some (clock (store p))\<rparr>]))"
proof
  from assms show "post_filmovi eng b1 p = post_filmovi eng b2 p"
    by (simp add: post_filmovi_def)
next
  show "store (snd (post_filmovi eng b1 p)) = store p \<or>
          (\<exists>n g z. filmovi (store (snd (post_filmovi eng b1 p))) =
             filmovi (store p) @
               [\<lparr>id_pk = auto_increment (store p), naslov = n, godina = g, zanr = z,
                 created_at = Some (clock (store p))\<rparr>])"
  proof (cases rule: bind_columns_cases [of eng "b1 ''naslov''" "b1 ''godina''" "b1 ''zanr''"])
    case (1 e)
    then show ?thesis by (simp add: post_rejected)
  next
    case (2 n g z)
    show ?thesis
    proof (cases "naslov_not_null eng \<and> n = None")
      case True
      with 2 show ?thesis by (simp add: post_bad_null)
    next
      case False
      with 2 show ?thesis by (simp add: post_inserted new_movie_def)
    qed
  qed
qed

theorem create_reads_three_fields_witness:
  "inception_with_id ''id'' = Some (JNum 99) \<and> inception ''id'' = None \<and>
   post_filmovi strict_engine inception_with_id empty_pool =
     post_filmovi strict_engine inception empty_pool \<and>
   filmovi (store (snd (post_filmovi strict_engine inception_with_id empty_pool))) =
     [inception_row]"
proof -
  have same: "inception_with_id ''naslov'' = inception ''naslov''"
    "inception_with_id ''godina'' = inception ''godina''"
    "inception_with_id ''zanr'' = inception ''zanr''"
    by (simp_all add: inception_with_id_def)
  have run: "filmovi (store (snd (post_filmovi strict_engine inception empty_pool))) =
     [inception_row]"
    using post_typed [of empty_pool inception "''Inception''" strict_engine] wf_empty_pool
    by (simp add: movie_fields_def inception_fields new_movie_def empty_pool_def
        inception_row_def)
  have extra: "inception_with_id ''id'' = Some (JNum 99)" "inception ''id'' = None"
    by (simp_all add: inception_with_id_def inception_def)
  from create_reads_three_fields [OF same, of strict_engine empty_pool] run extra
  show ?thesis by simp
qed

text \<open>
  Claim C2. On a well-formed table, let a create with well-typed fields and the
  \<^verbatim>\<open>naslov\<close> n respond 201 with the row r, and let the path segment ident be one that the
  engine reads as the id of r. Then \<^verbatim>\<open>GET /filmovi/ident\<close> on the state after the create
  responds 200 with a row whose \<^verbatim>\<open>naslov\<close> is n, whose \<^verbatim>\<open>godina\<close> and \<^verbatim>\<open>zanr\<close> are those
  of the body (NULL when absent or null), whose id is that of r, the generated one, and
  whose \<^verbatim>\<open>created_at\<close> is set.
\<close>

theorem create_then_get:
  assumes "wf_database (store p)"
    and "movie_fields b" and "b ''naslov'' = Some (JStr n)"
    and "post_filmovi eng b p = (Response 201 (Json_row (Some r)), p')"
    and "id_of_text eng ident = Some (id_pk r)"
  shows "\<exists>r'. fst (get_filmovi_id eng ident p') = Response 200 (Json_row (Some r')) \<and>
              naslov r' = Some n \<and>
              godina r' = int_value (b ''godina'') \<and>
              zanr r' = text_value (b ''zanr'') \<and>
              id_pk r' = id_pk r \<and> id_pk r' = auto_increment (store p) \<and>
              created_at r' = Some (clock (store p))"
proof -
  let ?new = "new_movie (store p) (Some n) (int_value (b ''godina'')) (text_value (b ''zanr''))"
  from assms(1-4) have r: "r = ?new"
    and p': "filmovi (store p') = filmovi (store p) @ [?new]"
    by (auto simp: post_typed)
  have same: "matches eng (Some (JStr ident)) = matches eng (Some (JNum (auto_increment (store p))))"
    using assms(5) r by (auto simp: matches_def new_movie_def fun_eq_iff)
  have "filter (matches eng (Some (JStr ident))) (filmovi (store p')) = [?new]"
    using assms(1) by (simp add: p' same fresh_no_match)
  then show ?thesis
    by (simp add: get_filmovi_id_eq r new_movie_def)
qed

theorem create_then_get_witness:
  "\<exists>r'. fst (get_filmovi_id strict_engine ''1''
            (snd (post_filmovi strict_engine inception empty_pool))) =
          Response 200 (Json_row (Some r')) \<and>
        naslov r' = Some ''Inception'' \<and> godina r' = Some 2010 \<and> zanr r' = Some ''Sci-Fi'' \<and>
        id_pk r' = 1 \<and> created_at r' = Some 0"
proof -
  have typed: "movie_fields inception"
    by (simp add: movie_fields_def inception_fields)
  have run: "post_filmovi strict_engine inception empty_pool =
     (Response 201 (Json_row (Some inception_row)),
      snd (post_filmovi strict_engine inception empty_pool))"
    using post_typed [of empty_pool inception "''Inception''" strict_engine] wf_empty_pool
    by (simp add: movie_fields_def inception_fields new_movie_def empty_pool_def
        inception_row_def)
  have path: "id_of_text strict_engine ''1'' = Some (id_pk inception_row)"
    by (simp add: strict_engine_def decimal_id_def inception_row_def)
  from create_then_get [OF wf_empty_pool typed inception_fields(1) run path]
  show ?thesis by (simp add: inception_fields empty_pool_def inception_row_def)
qed

subsection \<open>Updating\<close>

text \<open>
  Claim C3. \<^verbatim>\<open>PUT /filmovi/:id\<close> with well-typed fields responds 404 with the message if
  and only if no row of the table matches the id. For every body, a 404 means that no row
  matches the id, and it leaves the state of the storage engine unchanged. When the fields
  are well typed and the response is not that 404, the response is 200 with the first row
  that the SELECT by the same id returns from the table after the update, which is the
  matched row with the update applied. (A body with a value that the engine rejects makes
  the UPDATE fail, whether a row matches or not: the handler then sends no response of its
  own.)
\<close>

theorem update_outcome:
  "(movie_fields b \<longrightarrow>
      (fst (put_filmovi_id eng ident b p) = Response 404 (Json_message not_found)) =
        (\<forall>r \<in> set (filmovi (store p)). \<not> matches eng (Some (JStr ident)) r)) \<and>
   (fst (put_filmovi_id eng ident b p) = Response 404 (Json_message not_found) \<longrightarrow>
      (\<forall>r \<in> set (filmovi (store p)). \<not> matches eng (Some (JStr ident)) r) \<and>
      store (snd (put_filmovi_id eng ident b p)) = store p) \<and>
   (movie_fields b \<and>
    fst (put_filmovi_id eng ident b p) \<noteq> Response 404 (Json_message not_found) \<longrightarrow>
      (\<exists>r0 r rs.
         fst (put_filmovi_id eng ident b p) = Response 200 (Json_row (Some r)) \<and>
         fst (select_by_id eng (Some (JStr ident)) (store (snd (put_filmovi_id eng ident b p)))) =
           Inr (Rows (r # rs)) \<and>
         r0 \<in> set (filmovi (store p)) \<and> matches eng (Some (JStr ident)) r0 \<and>
         r = set_columns (text_value (b ''naslov'')) (int_value (b ''godina''))
               (text_value (b ''zanr'')) r0))"
proof (intro conjI impI)
  assume "movie_fields b"
  then show "(fst (put_filmovi_id eng ident b p) = Response 404 (Json_message not_found)) =
     (\<forall>r \<in> set (filmovi (store p)). \<not> matches eng (Some (JStr ident)) r)"
    by (simp add: put_typed_not_found_iff filter_empty_conv)
next
  assume "fst (put_filmovi_id eng ident b p) = Response 404 (Json_message not_found)"
  then show "\<forall>r \<in> set (filmovi (store p)). \<not> matches eng (Some (JStr ident)) r"
    using put_not_found_only_if [of eng ident b p] by (simp add: filter_empty_conv)
next
  assume "fst (put_filmovi_id eng ident b p) = Response 404 (Json_message not_found)"
  then show "store (snd (put_filmovi_id eng ident b p)) = store p"
    by (simp add: put_not_found_only_if)
next
  assume a: "movie_fields b \<and>
    fst (put_filmovi_id eng ident b p) \<noteq> Response 404 (Json_message not_found)"
  then have hit: "filter (matches eng (Some (JStr ident))) (filmovi (store p)) \<noteq> []"
    using put_typed_not_found_iff [of b eng ident p] by blast
  then obtain r0 rest where
    r0: "filter (matches eng (Some (JStr ident))) (filmovi (store p)) = r0 # rest"
    by (cases "filter (matches eng (Some (JStr ident))) (filmovi (store p))") auto
  then have "r0 \<in> set (filter (matches eng (Some (JStr ident))) (filmovi (store p)))"
    by simp
  then have mem: "r0 \<in> set (filmovi (store p))" "matches eng (Some (JStr ident)) r0"
    by simp_all
  from a hit r0 mem
  show "\<exists>r0 r rs.
         fst (put_filmovi_id eng ident b p) = Response 200 (Json_row (Some r)) \<and>
         fst (select_by_id eng (Some (JStr ident)) (store (snd (put_filmovi_id eng ident b p)))) =
           Inr (Rows (r # rs)) \<and>
         r0 \<in> set (filmovi (store p)) \<and> matches eng (Some (JStr ident)) r0 \<and>
         r = set_columns (text_value (b ''naslov'')) (int_value (b ''godina''))
               (text_value (b ''zanr'')) r0"
    apply -
    apply (rule exI [of _ r0])
    apply (simp add: put_typed_match select_by_id_def filter_map_if)
    done
qed

theorem update_outcome_witness:
  "fst (put_filmovi_id strict_engine ''7'' [''godina'' \<mapsto> JNum 2011] one_film) =
     Response 404 (Json_message not_found) \<and>
   store (snd (put_filmovi_id strict_engine ''7'' [''godina'' \<mapsto> JNum 2011] one_film)) =
     store one_film \<and>
   fst (put_filmovi_id strict_engine ''1'' [''godina'' \<mapsto> JNum 2011] one_film) =
     Response 200 (Json_row (Some (inception_row\<lparr>godina := Some 2011\<rparr>)))"
  using update_outcome [of "[''godina'' \<mapsto> JNum 2011]" strict_engine "''7''" one_film]
    update_outcome [of "[''godina'' \<mapsto> JNum 2011]" strict_engine "''1''" one_film]
  by (simp add: one_film_def inception_row_def strict_matches movie_fields_def
      set_columns_def)

text \<open>
  An update that carries an empty array as \<^verbatim>\<open>naslov\<close> fails on the strict engine, on an
  id that no row has as on one that a row has, and changes nothing.
\<close>

lemma put_unwritable_value:
  "put_filmovi_id strict_engine ''7'' [''naslov'' \<mapsto> JArr []] one_film =
     (Rejected BadValue,
      \<lparr>store = store one_film,
       issued = [(sql_update, [Some (JArr []), None, None, Some (JStr ''7'')])]\<rparr>)"
  "put_filmovi_id strict_engine ''1'' [''naslov'' \<mapsto> JArr []] one_film =
     (Rejected BadValue,
      \<lparr>store = store one_film,
       issued = [(sql_update, [Some (JArr []), None, None, Some (JStr ''1'')])]\<rparr>)"
  by (simp_all add: put_filmovi_id_def pool_query_def execute_simps update_rows_def
      bind_columns_def strict_engine_def one_film_def)

text \<open>
  Claim C4. For an update with well-typed fields, the table keeps its length and the
  position of every row; every row keeps its id and its \<^verbatim>\<open>created_at\<close>; a row that the id
  does not match is unchanged; and in a row that the id matches, each of \<^verbatim>\<open>naslov\<close>,
  \<^verbatim>\<open>godina\<close>, \<^verbatim>\<open>zanr\<close> takes the value of the body when the body holds one that is not
  null, and keeps the stored value when the body holds none or null. In particular an
  update with \<^verbatim>\<open>naslov\<close> alone leaves \<^verbatim>\<open>godina\<close> and \<^verbatim>\<open>zanr\<close> as they were.
\<close>

theorem update_frame:
  assumes "movie_fields b"
  shows "length (filmovi (store (snd (put_filmovi_id eng ident b p)))) =
           length (filmovi (store p)) \<and>
         (\<forall>k < length (filmovi (store p)).
            let r = filmovi (store p) ! k;
                r' = filmovi (store (snd (put_filmovi_id eng ident b p))) ! k
            in id_pk r' = id_pk r \<and> created_at r' = created_at r \<and>
               (if matches eng (Some (JStr ident)) r
                then naslov r' =
                       (case text_value (b ''naslov'') of Some s \<Rightarrow> Some s | None \<Rightarrow> naslov r) \<and>
                     godina r' =
                       (case int_value (b ''godina'') of Some n \<Rightarrow> Some n | None \<Rightarrow> godina r) \<and>
                     zanr r' =
                       (case text_value (b ''zanr'') of Some s \<Rightarrow> Some s | None \<Rightarrow> zanr r)
                else r' = r))"
  using assms by (simp add: put_typed_table Let_def set_columns_def coalesce_case)

theorem update_frame_witness:
  "filmovi (store (snd (put_filmovi_id strict_engine ''1'' [''naslov'' \<mapsto> JStr ''Memento'']
      two_films))) =
     [inception_row\<lparr>naslov := Some ''Memento''\<rparr>, tenet_row]"
proof -
  have typed: "movie_fields [''naslov'' \<mapsto> JStr ''Memento'']"
    by (simp add: movie_fields_def)
  have rows: "filmovi (store two_films) = [inception_row, tenet_row]"
    by (simp add: two_films_def)
  note frame = update_frame [OF typed, of strict_engine "''1''" two_films]
  from frame have len:
    "length (filmovi (store (snd (put_filmovi_id strict_engine ''1''
        [''naslov'' \<mapsto> JStr ''Memento''] two_films)))) = 2"
    by (simp add: rows)
  from frame have r0:
    "filmovi (store (snd (put_filmovi_id strict_engine ''1''
        [''naslov'' \<mapsto> JStr ''Memento''] two_films))) ! 0 =
     inception_row\<lparr>naslov := Some ''Memento''\<rparr>"
    by (simp add: rows Let_def strict_matches inception_row_def tenet_row_def
        all_less_two movie.equality) 
  from frame have r1:
    "filmovi (store (snd (put_filmovi_id strict_engine ''1''
        [''naslov'' \<mapsto> JStr ''Memento''] two_films))) ! 1 = tenet_row"
    by (simp add: rows Let_def strict_matches inception_row_def tenet_row_def
        all_less_two) 
  show ?thesis
    using len r0 r1 by (simp add: list_eq_iff_nth_eq all_less_two)
qed

subsection \<open>Deleting\<close>

text \<open>
  Claim C5. For every id, \<^verbatim>\<open>DELETE /filmovi/:id\<close> followed at once by \<^verbatim>\<open>GET /filmovi/:id\<close>
  with the same id yields 404 with the message from the GET, whether the delete found a
  row or not.
\<close>

theorem delete_then_get:
  "fst (get_filmovi_id eng ident (snd (delete_filmovi_id eng ident p))) =
     Response 404 (Json_message not_found)"
  by (simp add: get_filmovi_id_eq delete_filmovi_id_eq filter_matches_after_delete)

text \<open>
  Claim C6. The DELETE statement reports a number n of affected rows, which is the number
  of rows that left the table. When n is zero the response is 404 with the message and the
  table is unchanged (so is its row count); otherwise the response is 204 with an empty
  body.
\<close>

theorem delete_outcome:
  "\<exists>n. fst (pool_query eng sql_delete [Some (JStr ident)] p) = Inr (ResultSetHeader 0 n) \<and>
       length (filmovi (store (snd (delete_filmovi_id eng ident p)))) + n =
         length (filmovi (store p)) \<and>
       (if n = 0
        then fst (delete_filmovi_id eng ident p) = Response 404 (Json_message not_found) \<and>
             filmovi (store (snd (delete_filmovi_id eng ident p))) = filmovi (store p)
        else fst (delete_filmovi_id eng ident p) = Response 204 Empty)"
  by (simp add: pool_query_def execute_simps delete_rows_def delete_filmovi_id_eq
      sum_length_filter_compl filter_none_compl add.commute)

theorem delete_outcome_witness:
  "fst (delete_filmovi_id strict_engine ''7'' one_film) = Response 404 (Json_message not_found) \<and>
   filmovi (store (snd (delete_filmovi_id strict_engine ''7'' one_film))) = [inception_row] \<and>
   fst (delete_filmovi_id strict_engine ''1'' one_film) = Response 204 Empty \<and>
   length (filmovi (store (snd (delete_filmovi_id strict_engine ''1'' one_film)))) = 0"
proof -
  have absent: "fst (pool_query strict_engine sql_delete [Some (JStr ''7'')] one_film) =
      Inr (ResultSetHeader 0 0)"
    by (simp add: pool_query_def execute_simps delete_rows_def one_film_def strict_matches
        inception_row_def)
  have present: "fst (pool_query strict_engine sql_delete [Some (JStr ''1'')] one_film) =
      Inr (ResultSetHeader 0 1)"
    by (simp add: pool_query_def execute_simps delete_rows_def one_film_def strict_matches
        inception_row_def)
  have rows: "filmovi (store one_film) = [inception_row]"
    by (simp add: one_film_def)
  from delete_outcome [of strict_engine "''7''" one_film]
    delete_outcome [of strict_engine "''1''" one_film]
  show ?thesis
    by (simp add: absent present rows)
qed

end
